theory Spec2Isabelle
  imports
    Complex_Main
    "HOL-Library.Product_Lexorder"
    "HOL-Library.Option_ord"
    "HOL-Library.List_Lexorder"
    "HOL-Library.Char_ord"
begin

section \<open>Python values\<close>

text \<open>
  The values that reach the view: \<^verbatim>\<open>request.GET.get(key, None)\<close> gives \<^verbatim>\<open>None\<close> or a
  \<^verbatim>\<open>str\<close>, and \<^verbatim>\<open>json.loads\<close> gives \<^verbatim>\<open>None\<close>, a \<^verbatim>\<open>bool\<close>, an \<^verbatim>\<open>int\<close>, a \<^verbatim>\<open>float\<close>, a
  \<^verbatim>\<open>str\<close>, a \<^verbatim>\<open>list\<close> or a \<^verbatim>\<open>dict\<close> (with string keys, in insertion order). A float is
  a number or one of \<^verbatim>\<open>nan\<close>, \<^verbatim>\<open>inf\<close> and \<^verbatim>\<open>-inf\<close>, which \<^verbatim>\<open>json.loads\<close> reads from the
  constants \<^verbatim>\<open>NaN\<close>, \<^verbatim>\<open>Infinity\<close> and \<^verbatim>\<open>-Infinity\<close> although JSON has no such values.
\<close>

datatype pyfloat = Finite real | NaN | PosInf | NegInf

datatype pyval =
    PyNone
  | PyBool bool
  | PyInt int
  | PyFloat pyfloat
  | PyStr string
  | PyList "pyval list"
  | PyDict "(string \<times> pyval) list"

datatype error =
    JSONDecodeError
  | TypeError
  | DoesNotExist
  | MultipleObjectsReturned
  | KeyError
  | ValidationError
  | ParseError
  | EnterpriseFeatureException
  | DatabaseError

text \<open>
  A call that may raise: \<open>Inl\<close> is the exception, and \<open>raising m f\<close> goes on with \<open>f\<close>
  when \<open>m\<close> returned.
\<close>

definition raising :: "error + 'a \<Rightarrow> ('a \<Rightarrow> error + 'b) \<Rightarrow> error + 'b" where
  "raising m f = (case m of Inl e \<Rightarrow> Inl e | Inr x \<Rightarrow> f x)"

text \<open>Truth value testing, as \<^verbatim>\<open>if x:\<close>, \<^verbatim>\<open>x and y\<close> and \<^verbatim>\<open>x or y\<close> do it.\<close>

fun truthy :: "pyval \<Rightarrow> bool" where
  "truthy PyNone = False"
| "truthy (PyBool b) = b"
| "truthy (PyInt i) = (i \<noteq> 0)"
| "truthy (PyFloat x) = (x \<noteq> Finite 0)"
| "truthy (PyStr s) = (s \<noteq> [])"
| "truthy (PyList xs) = (xs \<noteq> [])"
| "truthy (PyDict kvs) = (kvs \<noteq> [])"

definition py_or :: "pyval \<Rightarrow> pyval \<Rightarrow> pyval" where
  "py_or x y = (if truthy x then x else y)"

text \<open>\<^verbatim>\<open>len(x)\<close>: defined on strings, lists and dicts, a \<^verbatim>\<open>TypeError\<close> on the rest.\<close>

fun py_len :: "pyval \<Rightarrow> error + nat" where
  "py_len (PyStr s) = Inr (length s)"
| "py_len (PyList xs) = Inr (length xs)"
| "py_len (PyDict kvs) = Inr (length kvs)"
| "py_len _ = Inl TypeError"

text \<open>
  \<^verbatim>\<open>tuple(x)\<close> iterates \<open>x\<close>: a string gives its one-character strings, a list its
  elements, a dict its keys; anything else is not iterable.
\<close>

fun py_tuple :: "pyval \<Rightarrow> error + pyval list" where
  "py_tuple (PyStr s) = Inr (map (\<lambda>c. PyStr [c]) s)"
| "py_tuple (PyList xs) = Inr xs"
| "py_tuple (PyDict kvs) = Inr (map (\<lambda>kv. PyStr (fst kv)) kvs)"
| "py_tuple _ = Inl TypeError"

text \<open>
  \<^verbatim>\<open>set(x)\<close> iterates \<open>x\<close> and hashes each element: lists and dicts are unhashable.
  Elements that Python takes for equal (\<^verbatim>\<open>1\<close>, \<^verbatim>\<open>1.0\<close> and \<^verbatim>\<open>True\<close>) stay apart here; a
  set with a number or a boolean in it is refused by the database in any case.
\<close>

fun hashable :: "pyval \<Rightarrow> bool" where
  "hashable (PyList xs) = False"
| "hashable (PyDict kvs) = False"
| "hashable _ = True"

definition py_set :: "pyval \<Rightarrow> error + pyval set" where
  "py_set x =
     (case py_tuple x of
        Inl e \<Rightarrow> Inl e
      | Inr xs \<Rightarrow> if list_all hashable xs then Inr (set xs) else Inl TypeError)"

text \<open>\<^verbatim>\<open>s.split(sep)\<close> for a one-character separator.\<close>

fun split :: "char \<Rightarrow> string \<Rightarrow> string list" where
  "split sep [] = [[]]"
| "split sep (c # cs) =
     (if c = sep then [] # split sep cs
      else (case split sep cs of [] \<Rightarrow> [[c]] | w # ws \<Rightarrow> (c # w) # ws))"

text \<open>\<^verbatim>\<open>sep.join(xs)\<close>.\<close>

fun join :: "string \<Rightarrow> string list \<Rightarrow> string" where
  "join sep [] = []"
| "join sep [x] = x"
| "join sep (x # y # ys) = x @ sep @ join sep (y # ys)"

text \<open>The decimal text of a non-negative integer, as an f-string renders \<^verbatim>\<open>{i}\<close>.\<close>

definition digit_char :: "nat \<Rightarrow> char" where
  "digit_char d = ''0123456789'' ! (d mod 10)"

fun str_nat :: "nat \<Rightarrow> string" where
  "str_nat n = (if n < 10 then [digit_char n] else str_nat (n div 10) @ [digit_char (n mod 10)])"

text \<open>Reading a decimal text back, to see that \<open>str_nat\<close> loses nothing.\<close>

definition digit_val :: "char \<Rightarrow> nat" where
  "digit_val c = of_char c - 48"

definition decimal_val :: "string \<Rightarrow> nat" where
  "decimal_val s = foldl (\<lambda>acc c. 10 * acc + digit_val c) 0 s"

definition is_digit :: "char \<Rightarrow> bool" where
  "is_digit c = (48 \<le> (of_char c :: nat) \<and> (of_char c :: nat) < 58)"

section \<open>The hidden property definitions\<close>

text \<open>
  \<^verbatim>\<open>HIDDEN_PROPERTY_DEFINITIONS\<close>: seven fixed names and \<^verbatim>\<open>$group_0\<close>, \<^verbatim>\<open>$group_1\<close>, ...
  for \<^verbatim>\<open>range(GROUP_TYPES_LIMIT)\<close>. The constant \<^verbatim>\<open>GROUP_TYPES_LIMIT\<close> of
  \<^verbatim>\<open>posthog.constants\<close> is a parameter here.
\<close>

definition hidden_names :: "nat \<Rightarrow> string list" where
  "hidden_names limit =
     [''distinct_id'', ''$set'', ''$set_once'', ''$groups'', ''$group_type'', ''$group_key'',
      ''$group_set'']
     @ map (\<lambda>i. ''$group_'' @ str_nat i) [0..<limit]"

definition HIDDEN_PROPERTY_DEFINITIONS :: "nat \<Rightarrow> string set" where
  "HIDDEN_PROPERTY_DEFINITIONS limit = set (hidden_names limit)"

section \<open>The data model\<close>

text \<open>
  A row of \<^verbatim>\<open>posthog_propertydefinition\<close> with the columns the view and its statement
  read, and a row of \<^verbatim>\<open>posthog_eventproperty\<close>. The models themselves are declared in
  \<^verbatim>\<open>posthog.models\<close>.
\<close>

record PropertyDefinition =
  id' :: string
  name :: string
  is_numerical :: bool
  query_usage_30_day :: "int option"
  property_type :: "string option"
  team_id :: int

record EventProperty =
  ep_team_id :: int
  event :: string
  property :: string

record database =
  posthog_propertydefinition :: "PropertyDefinition list"
  posthog_eventproperty :: "EventProperty list"

text \<open>
  What the raw statement yields: every column of the property definition and the
  computed column \<^verbatim>\<open>is_event_property\<close>.
\<close>

record RawRow = PropertyDefinition +
  is_event_property :: "bool option"

section \<open>The view\<close>

text \<open>
  The state of the view set that the methods read: \<^verbatim>\<open>self.team_id\<close>, \<^verbatim>\<open>self.kwargs\<close> and
  \<^verbatim>\<open>self.request.GET\<close> (a key maps to the value \<^verbatim>\<open>GET.get\<close> returns for it).
\<close>

record viewset =
  self_team_id :: int
  kwargs :: "string \<rightharpoonup> string"
  GET :: "string \<rightharpoonup> string"

text \<open>
  A value bound to a placeholder of the statement: a single value, a tuple, a tuple made
  from a set (the order of its elements is unspecified, so only the set is kept), or a
  dict.
\<close>

datatype param =
    Scalar pyval
  | Tuple "pyval list"
  | TupleOfSet "pyval set"
  | Dict "(string \<times> param) list"

text \<open>
  What the module takes from elsewhere, as parameters: \<^verbatim>\<open>json.loads\<close> (\<open>None\<close> when it
  raises \<^verbatim>\<open>JSONDecodeError\<close>), \<^verbatim>\<open>GROUP_TYPES_LIMIT\<close>, the column names of
  \<^verbatim>\<open>PropertyDefinition._meta.get_fields()\<close>, and the term search of \<^verbatim>\<open>posthog.filters\<close>:
  \<^verbatim>\<open>term_search_filter_sql\<close> gives, for the search fields and the search term, a fragment of
  the statement and the parameters bound for it, and \<open>search_holds\<close> is what such a
  fragment, with the statement's parameters, says of a row in the database (in SQL's three
  truth values, \<open>None\<close> for unknown).
\<close>

record env =
  json_loads :: "string \<Rightarrow> pyval option"
  GROUP_TYPES_LIMIT :: nat
  columns :: "string list"
  term_search_filter_sql :: "string list \<Rightarrow> string option \<Rightarrow> string \<times> (string \<rightharpoonup> param)"
  search_holds :: "string \<Rightarrow> (string \<rightharpoonup> param) \<Rightarrow> PropertyDefinition \<Rightarrow> bool option"

text \<open>
  A raw query set: the statement, kept as the values that fill the holes of its f-string,
  and the parameters bound on execution.
\<close>

record raw_query =
  property_definition_fields :: string
  event_property_field :: string
  name_filter :: string
  numerical_filter :: string
  search_query :: string
  event_property_filter :: string
  params :: "string \<rightharpoonup> param"


text \<open>The truth of \<^verbatim>\<open>request.GET.get(key, None)\<close>: present and not the empty string.\<close>

fun str_truthy :: "string option \<Rightarrow> bool" where
  "str_truthy None = False"
| "str_truthy (Some s) = (s \<noteq> [])"

definition search_fields :: "string list" where
  "search_fields = [''name'']"

definition get_name_filter :: "viewset \<Rightarrow> string \<times> (string \<times> param) list" where
  "get_name_filter self =
     (let properties_to_filter = GET self ''properties'' in
      case properties_to_filter of
        Some s \<Rightarrow>
          if str_truthy properties_to_filter
          then (''AND name IN %(names)s'', [(''names'', Tuple (map PyStr (split CHR '','' s)))])
          else ('''', [(''names'', Tuple [])])
      | None \<Rightarrow> ('''', [(''names'', Tuple [])]))"

definition get_numerical_filter :: "viewset \<Rightarrow> string" where
  "get_numerical_filter self =
     (if GET self ''is_numerical'' = Some ''true''
      then ''AND is_numerical = true AND name NOT IN ('distinct_id', 'timestamp')''
      else '''')"

text \<open>
  \<^verbatim>\<open>_get_event_names\<close> and \<^verbatim>\<open>_get_excluded_properties\<close>: the parameter is decoded only when
  it is present and not empty; otherwise it is returned as it is (\<^verbatim>\<open>None\<close> or the empty
  string).
\<close>

definition get_json_param :: "env \<Rightarrow> viewset \<Rightarrow> string \<Rightarrow> error + pyval" where
  "get_json_param env self key =
     (case GET self key of
        None \<Rightarrow> Inr PyNone
      | Some s \<Rightarrow>
          if str_truthy (Some s)
          then (case json_loads env s of None \<Rightarrow> Inl JSONDecodeError | Some v \<Rightarrow> Inr v)
          else Inr (PyStr s))"

definition get_event_names :: "env \<Rightarrow> viewset \<Rightarrow> error + pyval" where
  "get_event_names env self = get_json_param env self ''event_names''"

definition get_excluded_properties :: "env \<Rightarrow> viewset \<Rightarrow> error + pyval" where
  "get_excluded_properties env self = get_json_param env self ''excluded_properties''"

definition EVENT_PROPERTY_SUBQUERY :: string where
  "EVENT_PROPERTY_SUBQUERY =
     ''(SELECT count(1) > 0 FROM posthog_eventproperty WHERE posthog_eventproperty.team_id=posthog_propertydefinition.team_id AND posthog_eventproperty.event IN %(event_names)s AND posthog_eventproperty.property = posthog_propertydefinition.name)''"

text \<open>\<^verbatim>\<open>event_names and len(event_names) > 0\<close>.\<close>

definition nonempty :: "pyval \<Rightarrow> error + bool" where
  "nonempty v = (if truthy v then raising (py_len v) (\<lambda>n. Inr (n > 0)) else Inr False)"

definition get_event_property_field :: "env \<Rightarrow> viewset \<Rightarrow> error + string \<times> string" where
  "get_event_property_field env self =
     raising (get_event_names env self) (\<lambda>event_names.
     raising (nonempty event_names) (\<lambda>has_event_names.
       if has_event_names
       then Inr (EVENT_PROPERTY_SUBQUERY,
              if GET self ''is_event_property'' = Some ''true''
              then ''AND '' @ EVENT_PROPERTY_SUBQUERY @ '' = true''
              else if GET self ''is_event_property'' = Some ''false''
              then ''AND '' @ EVENT_PROPERTY_SUBQUERY @ '' = false''
              else '''')
       else Inr (''NULL'', '''')))"

definition get_search_fields :: "env \<Rightarrow> viewset \<Rightarrow> string \<times> (string \<rightharpoonup> param)" where
  "get_search_fields env self =
     (let search = GET self ''search'' in term_search_filter_sql env search_fields search)"

definition get_queryset :: "env \<Rightarrow> viewset \<Rightarrow> error + raw_query" where
  "get_queryset env self =
     (let (name_filter', name_params) = get_name_filter self;
          numerical_filter' = get_numerical_filter self
      in
      raising (get_event_names env self) (\<lambda>event_names.
      raising (get_excluded_properties env self) (\<lambda>excluded_properties.
      raising (get_event_property_field env self) (\<lambda>(event_property_field', event_property_filter').
      let (search_query', search_params) = get_search_fields env self in
      raising (py_tuple (py_or event_names (PyList []))) (\<lambda>event_names_tuple.
      raising (py_set (py_or excluded_properties (PyList []))) (\<lambda>excluded_set.
        Inr \<lparr>property_definition_fields =
               join '', '' (map (\<lambda>c. [CHR 0x22] @ c @ [CHR 0x22]) (columns env)),
             event_property_field = event_property_field',
             name_filter = name_filter',
             numerical_filter = numerical_filter',
             search_query = search_query',
             event_property_filter = event_property_filter',
             params =
               [''event_names'' \<mapsto> Tuple event_names_tuple,
                ''names'' \<mapsto> Dict name_params,
                ''team_id'' \<mapsto> Scalar (PyInt (self_team_id self)),
                ''excluded_properties'' \<mapsto>
                  TupleOfSet (excluded_set
                    \<union> PyStr ` HIDDEN_PROPERTY_DEFINITIONS (GROUP_TYPES_LIMIT env))]
               ++ search_params\<rparr>))))))"

text \<open>The parameters \<^verbatim>\<open>get_queryset\<close> binds, given the two decoded lists.\<close>

definition bound_params ::
  "env \<Rightarrow> viewset \<Rightarrow> pyval list \<Rightarrow> pyval set \<Rightarrow> (string \<rightharpoonup> param)" where
  "bound_params env self names S =
     [''event_names'' \<mapsto> Tuple names,
      ''names'' \<mapsto> Dict (snd (get_name_filter self)),
      ''team_id'' \<mapsto> Scalar (PyInt (self_team_id self)),
      ''excluded_properties'' \<mapsto>
        TupleOfSet (S \<union> PyStr ` HIDDEN_PROPERTY_DEFINITIONS (GROUP_TYPES_LIMIT env))]
     ++ snd (get_search_fields env self)"

text \<open>\<^verbatim>\<open>get_object\<close>: \<^verbatim>\<open>PropertyDefinition.objects.get(id=id)\<close> over the whole table.\<close>

definition objects_get :: "PropertyDefinition list \<Rightarrow> string \<Rightarrow> error + PropertyDefinition" where
  "objects_get table i =
     (case filter (\<lambda>r. id' r = i) table of
        [] \<Rightarrow> Inl DoesNotExist
      | [r] \<Rightarrow> Inr r
      | _ \<Rightarrow> Inl MultipleObjectsReturned)"

definition get_object :: "database \<Rightarrow> viewset \<Rightarrow> error + PropertyDefinition" where
  "get_object db self =
     (case kwargs self ''id'' of
        None \<Rightarrow> Inl KeyError
      | Some i \<Rightarrow> objects_get (posthog_propertydefinition db) i)"

text \<open>
  \<^verbatim>\<open>PropertyDefinitionSerializer.update\<close>: raises before it reads or writes anything, so the
  table it is given comes back as it was.
\<close>

definition update ::
  "database \<Rightarrow> PropertyDefinition \<Rightarrow> (string \<rightharpoonup> pyval) \<Rightarrow> (error + PropertyDefinition) \<times> database"
  where
  "update db property_definition validated_data = (Inl EnterpriseFeatureException, db)"

text \<open>
  The update of the view set is \<^verbatim>\<open>UpdateModelMixin.update\<close> of the framework, for \<^verbatim>\<open>PUT\<close>
  and, as a partial update, for \<^verbatim>\<open>PATCH\<close>: it fetches the object with \<^verbatim>\<open>get_object\<close>, has
  the serializer validate the body, raising \<^verbatim>\<open>ValidationError\<close> when it is not valid, and
  saves, which calls the serializer's \<^verbatim>\<open>update\<close> with the object and the validated data.
  The validation follows the declarations of the model's fields and is a parameter here
  (\<open>None\<close> when it refuses the body).
\<close>

definition view_update ::
  "((string \<rightharpoonup> pyval) \<Rightarrow> (string \<rightharpoonup> pyval) option) \<Rightarrow> database \<Rightarrow> viewset \<Rightarrow> (string \<rightharpoonup> pyval)
     \<Rightarrow> (error + PropertyDefinition) \<times> database"
  where
  "view_update run_validation db self data =
     (case get_object db self of
        Inl e \<Rightarrow> (Inl e, db)
      | Inr property_definition \<Rightarrow>
          (case run_validation data of
             None \<Rightarrow> (Inl ValidationError, db)
           | Some validated_data \<Rightarrow> update db property_definition validated_data))"

section \<open>Executing the statement\<close>

text \<open>
  The statement runs in the database, so its meaning is given here fragment by fragment:
  each text the view can put into a hole of the f-string stands for one conjunct of the
  \<^verbatim>\<open>WHERE\<close> clause (or for the computed column), read in SQL's three truth values, where
  \<open>None\<close> is unknown. A row is returned when every conjunct is true of it. Both tables
  hold no nulls in the columns compared.

  A placeholder is filled when the statement refers to it. A list for \<^verbatim>\<open>IN\<close> must be a
  non-empty tuple of texts and nulls: an empty tuple is a syntax error, a number, a boolean
  or an array cannot be compared with a text column, and a dict cannot be adapted at all.
  The statement is then rejected as a whole.
\<close>

definition sql_in :: "string \<Rightarrow> pyval set \<Rightarrow> bool option" where
  "sql_in x S = (if PyStr x \<in> S then Some True else if PyNone \<in> S then None else Some False)"

definition sql_not :: "bool option \<Rightarrow> bool option" where
  "sql_not v = map_option Not v"

fun text_or_null :: "pyval \<Rightarrow> bool" where
  "text_or_null PyNone = True"
| "text_or_null (PyStr s) = True"
| "text_or_null _ = False"

definition in_list :: "(string \<rightharpoonup> param) \<Rightarrow> string \<Rightarrow> error + pyval set" where
  "in_list ps key =
     (case ps key of
        Some (Tuple xs) \<Rightarrow>
          if xs \<noteq> [] \<and> list_all text_or_null xs then Inr (set xs) else Inl DatabaseError
      | Some (TupleOfSet S) \<Rightarrow>
          if S \<noteq> {} \<and> (\<forall>v \<in> S. text_or_null v) then Inr S else Inl DatabaseError
      | _ \<Rightarrow> Inl DatabaseError)"

type_synonym condition = "PropertyDefinition \<Rightarrow> bool option"

text \<open>\<^verbatim>\<open>team_id = %(team_id)s\<close>\<close>

definition team_condition :: "(string \<rightharpoonup> param) \<Rightarrow> error + condition" where
  "team_condition ps =
     (case ps ''team_id'' of
        Some (Scalar (PyInt t)) \<Rightarrow> Inr (\<lambda>r. Some (team_id r = t))
      | _ \<Rightarrow> Inl DatabaseError)"

text \<open>\<^verbatim>\<open>name NOT IN %(excluded_properties)s\<close>\<close>

definition excluded_condition :: "(string \<rightharpoonup> param) \<Rightarrow> error + condition" where
  "excluded_condition ps =
     raising (in_list ps ''excluded_properties'') (\<lambda>S. Inr (\<lambda>r. sql_not (sql_in (name r) S)))"

definition name_condition :: "string \<Rightarrow> (string \<rightharpoonup> param) \<Rightarrow> error + condition" where
  "name_condition fragment ps =
     (if fragment = '''' then Inr (\<lambda>r. Some True)
      else if fragment = ''AND name IN %(names)s''
      then raising (in_list ps ''names'') (\<lambda>S. Inr (\<lambda>r. sql_in (name r) S))
      else Inl DatabaseError)"

definition numerical_condition :: "string \<Rightarrow> error + condition" where
  "numerical_condition fragment =
     (if fragment = '''' then Inr (\<lambda>r. Some True)
      else if fragment = ''AND is_numerical = true AND name NOT IN ('distinct_id', 'timestamp')''
      then Inr (\<lambda>r. Some (is_numerical r \<and> name r \<notin> {''distinct_id'', ''timestamp''}))
      else Inl DatabaseError)"

text \<open>
  Modelled from the spec: \<^verbatim>\<open>term_search_filter_sql\<close> of \<^verbatim>\<open>posthog.filters\<close> is not among the
  sources. The fragment it produces is applied as one more conjunct of the \<^verbatim>\<open>WHERE\<close> clause
  (it is AND-combined with the others); an empty fragment adds nothing.
\<close>

definition search_condition :: "env \<Rightarrow> string \<Rightarrow> (string \<rightharpoonup> param) \<Rightarrow> error + condition" where
  "search_condition env fragment ps =
     (if fragment = '''' then Inr (\<lambda>r. Some True) else Inr (search_holds env fragment ps))"

text \<open>
  The subquery \<^verbatim>\<open>SELECT count(1) > 0 FROM posthog_eventproperty WHERE ...\<close> for one row of
  the outer table: a count is never null, so neither is the comparison.
\<close>

definition event_property_subquery ::
  "database \<Rightarrow> (string \<rightharpoonup> param) \<Rightarrow> error + (PropertyDefinition \<Rightarrow> bool)" where
  "event_property_subquery db ps =
     raising (in_list ps ''event_names'') (\<lambda>S.
       Inr (\<lambda>r. 0 < length (filter
         (\<lambda>e. ep_team_id e = team_id r \<and> sql_in (event e) S = Some True \<and> property e = name r)
         (posthog_eventproperty db))))"

definition event_property_value ::
  "database \<Rightarrow> string \<Rightarrow> (string \<rightharpoonup> param) \<Rightarrow> error + condition" where
  "event_property_value db fragment ps =
     (if fragment = ''NULL'' then Inr (\<lambda>r. None)
      else if fragment = EVENT_PROPERTY_SUBQUERY
      then raising (event_property_subquery db ps) (\<lambda>f. Inr (\<lambda>r. Some (f r)))
      else Inl DatabaseError)"

definition event_property_condition ::
  "database \<Rightarrow> string \<Rightarrow> (string \<rightharpoonup> param) \<Rightarrow> error + condition" where
  "event_property_condition db fragment ps =
     (if fragment = '''' then Inr (\<lambda>r. Some True)
      else if fragment = ''AND '' @ EVENT_PROPERTY_SUBQUERY @ '' = true''
      then raising (event_property_subquery db ps) (\<lambda>f. Inr (\<lambda>r. Some (f r = True)))
      else if fragment = ''AND '' @ EVENT_PROPERTY_SUBQUERY @ '' = false''
      then raising (event_property_subquery db ps) (\<lambda>f. Inr (\<lambda>r. Some (f r = False)))
      else Inl DatabaseError)"

definition where_conditions :: "env \<Rightarrow> database \<Rightarrow> raw_query \<Rightarrow> error + condition list" where
  "where_conditions env db q =
     raising (team_condition (params q)) (\<lambda>c1.
     raising (excluded_condition (params q)) (\<lambda>c2.
     raising (name_condition (name_filter q) (params q)) (\<lambda>c3.
     raising (numerical_condition (numerical_filter q)) (\<lambda>c4.
     raising (search_condition env (search_query q) (params q)) (\<lambda>c5.
     raising (event_property_condition db (event_property_filter q) (params q)) (\<lambda>c6.
       Inr [c1, c2, c3, c4, c5, c6]))))))"

text \<open>
  \<^verbatim>\<open>ORDER BY is_event_property DESC, query_usage_30_day DESC NULLS LAST, name ASC\<close> as a
  sort key: descending puts nulls first unless told otherwise, then true before false;
  names are compared character by character. Rows with equal keys keep the order of the
  table, one of the orders the database may choose.
\<close>

definition order_by_key :: "RawRow \<Rightarrow> bool option \<times> (bool \<times> int) \<times> string" where
  "order_by_key r =
     (map_option Not (is_event_property r),
      (case query_usage_30_day r of None \<Rightarrow> (True, 0) | Some n \<Rightarrow> (False, - n)),
      name r)"

definition annotate :: "condition \<Rightarrow> PropertyDefinition \<Rightarrow> RawRow" where
  "annotate field r =
     \<lparr>id' = id' r, name = name r, is_numerical = is_numerical r,
      query_usage_30_day = query_usage_30_day r, property_type = property_type r,
      team_id = team_id r, is_event_property = field r\<rparr>"

definition execute :: "env \<Rightarrow> database \<Rightarrow> raw_query \<Rightarrow> error + RawRow list" where
  "execute env db q =
     raising (event_property_value db (event_property_field q) (params q)) (\<lambda>field.
     raising (where_conditions env db q) (\<lambda>conditions.
       Inr (sort_key order_by_key
         (map (annotate field)
           (filter (\<lambda>r. list_all (\<lambda>c. c r = Some True) conditions)
             (posthog_propertydefinition db))))))"

text \<open>
  The list operation: the rows of the query set of \<^verbatim>\<open>get_queryset\<close>. The filter backend of
  the view set, also of \<^verbatim>\<open>posthog.filters\<close>, is taken to pass a raw query set on as it is,
  the search being part of the statement already.
\<close>

definition list_view :: "env \<Rightarrow> database \<Rightarrow> viewset \<Rightarrow> error + RawRow list" where
  "list_view env db self = raising (get_queryset env self) (execute env db)"

section \<open>A small installation\<close>

text \<open>
  Concrete surroundings to run the view in: a decoder that knows a few texts (each decoded
  as \<^verbatim>\<open>json.loads\<close> decodes it, every other text refused), five group types, a term search
  on the name, and the rows of two teams.
\<close>

definition sample_json_loads :: "string \<Rightarrow> pyval option" where
  \<open>sample_json_loads s =
     (if s = ''[]'' then Some (PyList [])
      else if s = ''["login"]'' then Some (PyList [PyStr ''login''])
      else if s = ''["plan"]'' then Some (PyList [PyStr ''plan''])
      else if s = ''["purchase", "login"]''
      then Some (PyList [PyStr ''purchase'', PyStr ''login''])
      else if s = ''["plan", "price"]'' then Some (PyList [PyStr ''plan'', PyStr ''price''])
      else if s = ''"login"'' then Some (PyStr ''login'')
      else if s = ''{"login": NaN}'' then Some (PyDict [(''login'', PyFloat NaN)])
      else if s = ''5'' then Some (PyInt 5)
      else None)\<close>

text \<open>
  A validation of the body that, like a boolean field, refuses an \<^verbatim>\<open>is_numerical\<close> that is
  neither a boolean nor one of the texts \<^verbatim>\<open>true\<close> and \<^verbatim>\<open>false\<close>.
\<close>

definition sample_run_validation :: "(string \<rightharpoonup> pyval) \<Rightarrow> (string \<rightharpoonup> pyval) option" where
  "sample_run_validation data =
     (case data ''is_numerical'' of
        None \<Rightarrow> Some data
      | Some (PyBool b) \<Rightarrow> Some data
      | Some (PyStr s) \<Rightarrow>
          if s = ''true'' then Some (data(''is_numerical'' \<mapsto> PyBool True))
          else if s = ''false'' then Some (data(''is_numerical'' \<mapsto> PyBool False))
          else None
      | Some _ \<Rightarrow> None)"

text \<open>
  A term search in the manner of \<^verbatim>\<open>posthog.filters\<close>: without a term it adds nothing; with
  one it adds a condition on the name and binds the term, between wildcards, as its
  pattern. The condition holds when the name contains the term, letter case aside (a
  wildcard inside the term is taken as it is written).
\<close>

definition sample_term_search ::
  "string list \<Rightarrow> string option \<Rightarrow> string \<times> (string \<rightharpoonup> param)" where
  "sample_term_search search_in term =
     (case term of
        None \<Rightarrow> ('''', Map.empty)
      | Some t \<Rightarrow>
          (''AND (name ilike %(name_0)s)'',
           [''name_0'' \<mapsto> Scalar (PyStr (''%'' @ t @ ''%''))]))"

definition lower :: "char \<Rightarrow> char" where
  "lower c = (if CHR ''A'' \<le> c \<and> c \<le> CHR ''Z'' then char_of (of_char c + (32::nat)) else c)"

fun contains :: "string \<Rightarrow> string \<Rightarrow> bool" where
  "contains t [] = (t = [])"
| "contains t (c # cs) = (take (length t) (c # cs) = t \<or> contains t cs)"

definition sample_search_holds ::
  "string \<Rightarrow> (string \<rightharpoonup> param) \<Rightarrow> PropertyDefinition \<Rightarrow> bool option" where
  "sample_search_holds fragment ps r =
     (case ps ''name_0'' of
        Some (Scalar (PyStr pattern)) \<Rightarrow>
          Some (contains (map lower (butlast (tl pattern))) (map lower (name r)))
      | _ \<Rightarrow> None)"

definition sample_env :: env where
  "sample_env =
     \<lparr>json_loads = sample_json_loads,
      GROUP_TYPES_LIMIT = 5,
      columns = [''id'', ''name'', ''is_numerical'', ''query_usage_30_day'', ''property_type'',
        ''team_id''],
      term_search_filter_sql = sample_term_search,
      search_holds = sample_search_holds\<rparr>"

definition row ::
  "string \<Rightarrow> string \<Rightarrow> bool \<Rightarrow> int option \<Rightarrow> int \<Rightarrow> PropertyDefinition" where
  "row i n num usage t =
     \<lparr>id' = i, name = n, is_numerical = num, query_usage_30_day = usage,
      property_type = None, team_id = t\<rparr>"

definition sample_db :: database where
  "sample_db =
     \<lparr>posthog_propertydefinition =
        [row ''a1'' ''$browser'' False (Some 5) 1,
         row ''a2'' ''price'' True None 1,
         row ''a3'' ''plan'' False (Some 9) 1,
         row ''a4'' ''distinct_id'' False (Some 100) 1,
         row ''a5'' ''timestamp'' True (Some 7) 1,
         row ''a6'' ''$group_0'' False None 1,
         row ''b1'' ''secret'' True (Some 3) 2],
      posthog_eventproperty =
        [\<lparr>ep_team_id = 1, event = ''login'', property = ''plan''\<rparr>,
         \<lparr>ep_team_id = 1, event = ''purchase'', property = ''price''\<rparr>,
         \<lparr>ep_team_id = 2, event = ''login'', property = ''secret''\<rparr>]\<rparr>"

definition request :: "int \<Rightarrow> (string \<times> string) list \<Rightarrow> viewset" where
  "request t query = \<lparr>self_team_id = t, kwargs = Map.empty, GET = map_of query\<rparr>"

section \<open>Properties of the hidden set\<close>

lemmas str_nat_unfold = str_nat.simps

declare str_nat.simps [simp del]

lemma digit_val_digit_char: "d < 10 \<Longrightarrow> digit_val (digit_char d) = d"
proof -
  assume "d < 10"
  then consider "d = 0" | "d = 1" | "d = 2" | "d = 3" | "d = 4"
    | "d = 5" | "d = 6" | "d = 7" | "d = 8" | "d = 9"
    by atomize_elim arith
  then show ?thesis
    by cases (simp_all add: digit_val_def digit_char_def)
qed

lemma decimal_val_snoc: "decimal_val (s @ [c]) = 10 * decimal_val s + digit_val c"
  by (simp add: decimal_val_def)

lemma decimal_val_str_nat: "decimal_val (str_nat n) = n"
proof (induction n rule: str_nat.induct)
  case (1 n)
  show ?case
  proof (cases "n < 10")
    case True
    then show ?thesis
      by (subst str_nat_unfold) (simp add: decimal_val_def digit_val_digit_char)
  next
    case False
    with "1" have "decimal_val (str_nat (n div 10)) = n div 10"
      by simp
    with False show ?thesis
      by (subst str_nat_unfold) (simp add: decimal_val_snoc digit_val_digit_char)
  qed
qed

lemma str_nat_inj: "str_nat m = str_nat n \<Longrightarrow> m = n"
  by (metis decimal_val_str_nat)

lemma is_digit_digit_char: "is_digit (digit_char d)"
proof -
  have "d mod 10 < length ''0123456789''"
    by simp
  then have "digit_char d \<in> set ''0123456789''"
    unfolding digit_char_def by (rule nth_mem)
  moreover have "\<forall>c \<in> set ''0123456789''. is_digit c"
    by (simp add: is_digit_def)
  ultimately show ?thesis
    by blast
qed

lemma is_digit_last_str_nat: "is_digit (last (str_nat n))"
  by (subst str_nat_unfold) (simp add: is_digit_digit_char)

lemma str_nat_not_Nil: "str_nat n \<noteq> []"
  by (subst str_nat_unfold) simp

lemma group_name_not_fixed:
  "''$group_'' @ str_nat i \<notin> {''distinct_id'', ''$set'', ''$set_once'', ''$groups'',
     ''$group_type'', ''$group_key'', ''$group_set''}"
proof
  assume a: "''$group_'' @ str_nat i \<in> {''distinct_id'', ''$set'', ''$set_once'',
    ''$groups'', ''$group_type'', ''$group_key'', ''$group_set''}"
  have "last (''$group_'' @ str_nat i) = last (str_nat i)"
    using str_nat_not_Nil by (simp del: append.simps)
  then have "is_digit (last (''$group_'' @ str_nat i))"
    by (simp only: is_digit_last_str_nat)
  moreover have "\<not> is_digit (last x)"
    if "x \<in> {''distinct_id'', ''$set'', ''$set_once'', ''$groups'', ''$group_type'',
      ''$group_key'', ''$group_set''}" for x
    using that by (auto simp: is_digit_def)
  ultimately show False
    using a by blast
qed

lemma distinct_group_names: "distinct (map (\<lambda>i. ''$group_'' @ str_nat i) [0..<n])"
  by (simp add: distinct_map inj_on_def str_nat_inj)

lemma distinct_hidden_names: "distinct (hidden_names n)"
proof -
  let ?fixed = "[''distinct_id'', ''$set'', ''$set_once'', ''$groups'', ''$group_type'',
    ''$group_key'', ''$group_set'']"
  let ?groups = "map (\<lambda>i. ''$group_'' @ str_nat i) [0..<n]"
  have fixed: "distinct ?fixed"
    by simp
  have "x \<notin> set ?fixed" if "x \<in> set ?groups" for x
  proof -
    from that obtain i where "x = ''$group_'' @ str_nat i"
      by auto
    with group_name_not_fixed [of i] show ?thesis
      by (simp del: append.simps)
  qed
  then have "set ?fixed \<inter> set ?groups = {}"
    by blast
  with fixed distinct_group_names [of n] have "distinct (?fixed @ ?groups)"
    by (simp only: distinct_append simp_thms)
  then show ?thesis
    by (simp only: hidden_names_def)
qed

lemma length_hidden_names: "length (hidden_names n) = 7 + n"
  by (simp add: hidden_names_def)

text \<open>
  C9 (as amended). The hidden set holds exactly \<open>7 + GROUP_TYPES_LIMIT\<close> distinct names:
  the seven fixed ones and one \<^verbatim>\<open>$group_i\<close> for each \<open>i\<close> below the limit.
\<close>

theorem hidden_property_definitions_card:
  "card (HIDDEN_PROPERTY_DEFINITIONS limit) = 7 + limit
   \<and> finite (HIDDEN_PROPERTY_DEFINITIONS limit)"
  unfolding HIDDEN_PROPERTY_DEFINITIONS_def
  using distinct_card [OF distinct_hidden_names, of limit]
  by (simp add: length_hidden_names)

text \<open>
  C9 (as stated) fails: with a limit of five group types the set has twelve names, not
  eighteen.
\<close>

theorem hidden_property_definitions_card_counterexample:
  "card (HIDDEN_PROPERTY_DEFINITIONS 5) \<noteq> 13 + 5"
  unfolding HIDDEN_PROPERTY_DEFINITIONS_def
  using distinct_card [OF distinct_hidden_names, of 5]
  by (simp add: length_hidden_names)

section \<open>What a query set holds\<close>

lemma raising_Inr_iff: "raising m f = Inr y \<longleftrightarrow> (\<exists>x. m = Inr x \<and> f x = Inr y)"
  by (cases m) (simp_all add: raising_def)

lemma raising_Inl [simp]: "raising (Inl e) f = Inl e"
  by (simp add: raising_def)

lemma raising_Inr [simp]: "raising (Inr x) f = f x"
  by (simp add: raising_def)

lemma get_queryset_Inr:
  assumes "get_queryset env self = Inr q"
  obtains ev ex names S where
    "get_event_names env self = Inr ev"
    "get_excluded_properties env self = Inr ex"
    "py_tuple (py_or ev (PyList [])) = Inr names"
    "py_set (py_or ex (PyList [])) = Inr S"
    "get_event_property_field env self =
       Inr (event_property_field q, event_property_filter q)"
    "name_filter q = fst (get_name_filter self)"
    "numerical_filter q = get_numerical_filter self"
    "search_query q = fst (get_search_fields env self)"
    "property_definition_fields q =
       join '', '' (map (\<lambda>c. [CHR 0x22] @ c @ [CHR 0x22]) (columns env))"
    "params q = bound_params env self names S"
proof -
  obtain nf np where np: "get_name_filter self = (nf, np)"
    by (cases "get_name_filter self")
  obtain sq sp where sp: "get_search_fields env self = (sq, sp)"
    by (cases "get_search_fields env self")
  from assms obtain ev ex pf where ev: "get_event_names env self = Inr ev"
    and ex: "get_excluded_properties env self = Inr ex"
    and pf: "get_event_property_field env self = Inr pf"
    and rest: "(case pf of (event_property_field', event_property_filter') \<Rightarrow>
      raising (py_tuple (py_or ev (PyList []))) (\<lambda>event_names_tuple.
      raising (py_set (py_or ex (PyList []))) (\<lambda>excluded_set.
        Inr \<lparr>property_definition_fields =
               join '', '' (map (\<lambda>c. [CHR 0x22] @ c @ [CHR 0x22]) (columns env)),
             event_property_field = event_property_field',
             name_filter = nf,
             numerical_filter = get_numerical_filter self,
             search_query = sq,
             event_property_filter = event_property_filter',
             params =
               [''event_names'' \<mapsto> Tuple event_names_tuple,
                ''names'' \<mapsto> Dict np,
                ''team_id'' \<mapsto> Scalar (PyInt (self_team_id self)),
                ''excluded_properties'' \<mapsto>
                  TupleOfSet (excluded_set
                    \<union> PyStr ` HIDDEN_PROPERTY_DEFINITIONS (GROUP_TYPES_LIMIT env))]
               ++ sp\<rparr>))) = Inr q"
    unfolding get_queryset_def Let_def np sp prod.case raising_Inr_iff
    by blast
  obtain f1 f2 where f: "pf = (f1, f2)"
    by (cases pf)
  from rest obtain names S where names: "py_tuple (py_or ev (PyList [])) = Inr names"
    and S: "py_set (py_or ex (PyList [])) = Inr S"
    and q: "q = \<lparr>property_definition_fields =
               join '', '' (map (\<lambda>c. [CHR 0x22] @ c @ [CHR 0x22]) (columns env)),
             event_property_field = f1,
             name_filter = nf,
             numerical_filter = get_numerical_filter self,
             search_query = sq,
             event_property_filter = f2,
             params =
               [''event_names'' \<mapsto> Tuple names,
                ''names'' \<mapsto> Dict np,
                ''team_id'' \<mapsto> Scalar (PyInt (self_team_id self)),
                ''excluded_properties'' \<mapsto>
                  TupleOfSet (S
                    \<union> PyStr ` HIDDEN_PROPERTY_DEFINITIONS (GROUP_TYPES_LIMIT env))]
               ++ sp\<rparr>"
    unfolding f prod.case raising_Inr_iff sum.inject
    by blast
  show thesis
  proof (rule that [OF ev ex names S])
    show "get_event_property_field env self =
       Inr (event_property_field q, event_property_filter q)"
      by (simp add: pf f q)
    show "name_filter q = fst (get_name_filter self)"
      by (simp add: q np)
    show "numerical_filter q = get_numerical_filter self"
      by (simp add: q)
    show "search_query q = fst (get_search_fields env self)"
      by (simp add: q sp)
    show "property_definition_fields q =
       join '', '' (map (\<lambda>c. [CHR 0x22] @ c @ [CHR 0x22]) (columns env))"
      by (simp add: q)
    show "params q = bound_params env self names S"
      by (simp add: q bound_params_def np sp)
  qed
qed

section \<open>What an execution returns\<close>

lemma execute_Inr:
  assumes "execute env db q = Inr rows"
  obtains field c1 c2 c3 c4 c5 c6 where
    "event_property_value db (event_property_field q) (params q) = Inr field"
    "team_condition (params q) = Inr c1"
    "excluded_condition (params q) = Inr c2"
    "name_condition (name_filter q) (params q) = Inr c3"
    "numerical_condition (numerical_filter q) = Inr c4"
    "search_condition env (search_query q) (params q) = Inr c5"
    "event_property_condition db (event_property_filter q) (params q) = Inr c6"
    "rows = sort_key order_by_key (map (annotate field)
       (filter (\<lambda>r. list_all (\<lambda>c. c r = Some True) [c1, c2, c3, c4, c5, c6])
         (posthog_propertydefinition db)))"
proof -
  from assms obtain field conditions where
    field: "event_property_value db (event_property_field q) (params q) = Inr field"
    and conditions: "where_conditions env db q = Inr conditions"
    and rows: "rows = sort_key order_by_key (map (annotate field)
       (filter (\<lambda>r. list_all (\<lambda>c. c r = Some True) conditions)
         (posthog_propertydefinition db)))"
    unfolding execute_def raising_Inr_iff sum.inject
    by blast
  from conditions obtain c1 c2 c3 c4 c5 c6 where
    "team_condition (params q) = Inr c1"
    "excluded_condition (params q) = Inr c2"
    "name_condition (name_filter q) (params q) = Inr c3"
    "numerical_condition (numerical_filter q) = Inr c4"
    "search_condition env (search_query q) (params q) = Inr c5"
    "event_property_condition db (event_property_filter q) (params q) = Inr c6"
    "conditions = [c1, c2, c3, c4, c5, c6]"
    unfolding where_conditions_def raising_Inr_iff sum.inject
    by blast
  with field rows show thesis
    by (intro that) simp_all
qed

lemma list_view_Inr:
  assumes "list_view env db self = Inr rows"
  obtains q where "get_queryset env self = Inr q" "execute env db q = Inr rows"
  using assms unfolding list_view_def raising_Inr_iff by blast

text \<open>A returned row is a row of the table that every condition holds of.\<close>

lemma sorted_rows_D:
  assumes "rows = sort_key order_by_key (map (annotate field)
       (filter (\<lambda>r. list_all (\<lambda>c. c r = Some True) cs) table))"
    and "r \<in> set rows"
  obtains r0 where "r0 \<in> set table" "r = annotate field r0" "\<forall>c \<in> set cs. c r0 = Some True"
  using assms by (auto simp: list_all_iff)

lemma annotate_simps [simp]:
  "name (annotate field r) = name r"
  "team_id (annotate field r) = team_id r"
  "is_numerical (annotate field r) = is_numerical r"
  "query_usage_30_day (annotate field r) = query_usage_30_day r"
  "id' (annotate field r) = id' r"
  "property_type (annotate field r) = property_type r"
  "is_event_property (annotate field r) = field r"
  by (simp_all add: annotate_def)

lemma bound_params_own:
  assumes "key \<notin> dom (snd (get_search_fields env self))"
  shows "bound_params env self names S key =
    [''event_names'' \<mapsto> Tuple names,
      ''names'' \<mapsto> Dict (snd (get_name_filter self)),
      ''team_id'' \<mapsto> Scalar (PyInt (self_team_id self)),
      ''excluded_properties'' \<mapsto>
        TupleOfSet (S \<union> PyStr ` HIDDEN_PROPERTY_DEFINITIONS (GROUP_TYPES_LIMIT env))] key"
  using assms unfolding bound_params_def by (simp add: map_add_dom_app_simps)


section \<open>Team isolation of the listing\<close>




section \<open>Parameters that are not JSON\<close>

lemma get_json_param_malformed:
  assumes "GET self key = Some s" and "s \<noteq> []" and "json_loads env s = None"
  shows "get_json_param env self key = Inl JSONDecodeError"
  using assms by (simp add: get_json_param_def)

lemma get_json_param_total_cases:
  "get_json_param env self key = Inl JSONDecodeError \<or> (\<exists>v. get_json_param env self key = Inr v)"
  by (simp add: get_json_param_def split: option.splits)

lemma get_queryset_event_names_malformed:
  assumes "get_event_names env self = Inl e"
  shows "get_queryset env self = Inl e"
  using assms by (simp add: get_queryset_def Let_def split: prod.splits)

lemma get_queryset_excluded_malformed:
  assumes "get_excluded_properties env self = Inl JSONDecodeError"
  shows "get_queryset env self = Inl JSONDecodeError"
proof (cases "get_event_names env self")
  case (Inl e)
  moreover from Inl have "e = JSONDecodeError"
    using get_json_param_total_cases [of env self "''event_names''"]
    by (auto simp: get_event_names_def)
  ultimately show ?thesis
    by (simp add: get_queryset_event_names_malformed)
next
  case (Inr ev)
  with assms show ?thesis
    by (simp add: get_queryset_def Let_def split: prod.splits)
qed

text \<open>
  C6 (as amended). When \<^verbatim>\<open>event_names\<close> or \<^verbatim>\<open>excluded_properties\<close> is present, is not the
  empty string and is a text that \<^verbatim>\<open>json.loads\<close> rejects, no query is built and the list
  operation fails; the text is never read as an empty list.
\<close>

theorem malformed_json_raises:
  assumes "(\<exists>s. GET self ''event_names'' = Some s \<and> s \<noteq> [] \<and> json_loads env s = None)
    \<or> (\<exists>s. GET self ''excluded_properties'' = Some s \<and> s \<noteq> [] \<and> json_loads env s = None)"
  shows "isl (get_queryset env self) \<and> isl (list_view env db self)"
proof -
  have "get_queryset env self = Inl JSONDecodeError"
    using assms
  proof (elim disjE exE conjE)
    fix s
    assume "GET self ''event_names'' = Some s" "s \<noteq> []" "json_loads env s = None"
    then have "get_event_names env self = Inl JSONDecodeError"
      unfolding get_event_names_def by (rule get_json_param_malformed)
    then show ?thesis
      by (rule get_queryset_event_names_malformed)
  next
    fix s
    assume "GET self ''excluded_properties'' = Some s" "s \<noteq> []" "json_loads env s = None"
    then have "get_excluded_properties env self = Inl JSONDecodeError"
      unfolding get_excluded_properties_def by (rule get_json_param_malformed)
    then show ?thesis
      by (rule get_queryset_excluded_malformed)
  qed
  then show ?thesis
    by (simp add: list_view_def)
qed

theorem malformed_json_raises_witness:
  "GET (request 1 [(''event_names'', ''not-json'')]) ''event_names'' = Some ''not-json''
   \<and> json_loads sample_env ''not-json'' = None
   \<and> isl (get_queryset sample_env (request 1 [(''event_names'', ''not-json'')]))
   \<and> isl (list_view sample_env sample_db (request 1 [(''event_names'', ''not-json'')]))
   \<and> \<not> isl (list_view sample_env sample_db (request 1 [(''event_names'', ''[]'')]))"
proof -
  have present: "GET (request 1 [(''event_names'', ''not-json'')]) ''event_names''
      = Some ''not-json''"
    by (simp add: request_def)
  have malformed: "json_loads sample_env ''not-json'' = None"
    by (simp add: sample_env_def sample_json_loads_def)
  have "(\<exists>s. GET (request 1 [(''event_names'', ''not-json'')]) ''event_names'' = Some s
      \<and> s \<noteq> [] \<and> json_loads sample_env s = None)
    \<or> (\<exists>s. GET (request 1 [(''event_names'', ''not-json'')]) ''excluded_properties'' = Some s
      \<and> s \<noteq> [] \<and> json_loads sample_env s = None)"
    using present malformed by simp
  from malformed_json_raises [OF this, of sample_db]
  have "isl (get_queryset sample_env (request 1 [(''event_names'', ''not-json'')]))
    \<and> isl (list_view sample_env sample_db (request 1 [(''event_names'', ''not-json'')]))" .
  moreover have "\<not> isl (list_view sample_env sample_db (request 1 [(''event_names'', ''[]'')]))"
    by code_simp
  ultimately show ?thesis
    using present malformed by blast
qed

text \<open>
  C6 (as stated) fails in three ways. The empty string is present and is not valid JSON,
  yet it is not decoded at all and the request is answered as the request without the
  parameter is. A text with the constant \<^verbatim>\<open>NaN\<close> is not valid JSON, yet \<^verbatim>\<open>json.loads\<close>
  accepts it, and the dict it gives is used as the list of its keys. And the error for a
  text that is rejected is the \<^verbatim>\<open>JSONDecodeError\<close> of \<^verbatim>\<open>json.loads\<close>, which nothing in the
  view turns into a \<^verbatim>\<open>ParseError\<close>.
\<close>

theorem malformed_json_counterexample:
  \<open>(json_loads sample_env '''' = None
     \<and> \<not> isl (list_view sample_env sample_db (request 1 [(''event_names'', '''')]))
     \<and> list_view sample_env sample_db (request 1 [(''event_names'', '''')])
         = list_view sample_env sample_db (request 1 []))
   \<and> (\<not> isl (list_view sample_env sample_db (request 1 [(''event_names'', ''{"login": NaN}'')]))
     \<and> list_view sample_env sample_db (request 1 [(''event_names'', ''{"login": NaN}'')])
         = list_view sample_env sample_db (request 1 [(''event_names'', ''["login"]'')]))
   \<and> (list_view sample_env sample_db (request 1 [(''event_names'', ''not-json'')])
         = Inl JSONDecodeError
     \<and> list_view sample_env sample_db (request 1 [(''event_names'', ''not-json'')])
         \<noteq> Inl ParseError)\<close>
  by code_simp

section \<open>Updates\<close>

lemma update_raises: "update db property_definition validated_data
    = (Inl EnterpriseFeatureException, db)"
  by (simp add: update_def)

text \<open>
  C5 (as amended). An update of an existing property definition never succeeds and leaves
  the tables as they were. It fails with \<^verbatim>\<open>EnterpriseFeatureException\<close> whenever the body
  passes the validation, whatever the body holds; a body that does not pass is refused
  with \<^verbatim>\<open>ValidationError\<close> before the serializer's \<^verbatim>\<open>update\<close> is reached.
\<close>

theorem view_update_never_succeeds:
  "isl (fst (view_update run_validation db self data))
   \<and> snd (view_update run_validation db self data) = db
   \<and> (\<forall>property_definition. get_object db self = Inr property_definition \<longrightarrow>
         fst (view_update run_validation db self data)
           = Inl (if run_validation data = None then ValidationError
                  else EnterpriseFeatureException))"
proof (cases "get_object db self")
  case (Inl e)
  then show ?thesis
    by (simp add: view_update_def)
next
  case (Inr property_definition)
  show ?thesis
  proof (cases "run_validation data")
    case None
    with Inr show ?thesis
      by (simp add: view_update_def)
  next
    case (Some validated_data)
    with Inr show ?thesis
      by (simp add: view_update_def update_raises)
  qed
qed

theorem view_update_never_succeeds_witness:
  "get_object sample_db (request 1 [] \<lparr>kwargs := [''id'' \<mapsto> ''a1'']\<rparr>)
     = Inr (row ''a1'' ''$browser'' False (Some 5) 1)
   \<and> sample_run_validation [''is_numerical'' \<mapsto> PyBool True] \<noteq> None
   \<and> view_update sample_run_validation sample_db
         (request 1 [] \<lparr>kwargs := [''id'' \<mapsto> ''a1'']\<rparr>) [''is_numerical'' \<mapsto> PyBool True]
     = (Inl EnterpriseFeatureException, sample_db)"
proof -
  let ?self = "request 1 [] \<lparr>kwargs := [''id'' \<mapsto> ''a1'']\<rparr>"
  let ?data = "[''is_numerical'' \<mapsto> PyBool True]"
  have existing: "get_object sample_db ?self = Inr (row ''a1'' ''$browser'' False (Some 5) 1)"
    by (simp add: get_object_def objects_get_def sample_db_def request_def row_def)
  have valid: "sample_run_validation ?data \<noteq> None"
    by (simp add: sample_run_validation_def)
  from view_update_never_succeeds [of sample_run_validation sample_db ?self ?data]
  have "snd (view_update sample_run_validation sample_db ?self ?data) = sample_db"
    and "fst (view_update sample_run_validation sample_db ?self ?data)
      = Inl EnterpriseFeatureException"
    using existing valid by simp_all
  then have "view_update sample_run_validation sample_db ?self ?data
      = (Inl EnterpriseFeatureException, sample_db)"
    by (simp add: prod_eq_iff)
  with existing valid show ?thesis
    by blast
qed

text \<open>
  C5 (as stated) fails for a body that is not valid: the definition \<^verbatim>\<open>a1\<close> exists, the body
  gives \<^verbatim>\<open>is_numerical\<close> as \<^verbatim>\<open>banana\<close>, and the error is the validation's, not the
  feature gate's.
\<close>

theorem view_update_counterexample:
  "get_object sample_db (request 1 [] \<lparr>kwargs := [''id'' \<mapsto> ''a1'']\<rparr>)
     = Inr (row ''a1'' ''$browser'' False (Some 5) 1)
   \<and> fst (view_update sample_run_validation sample_db
         (request 1 [] \<lparr>kwargs := [''id'' \<mapsto> ''a1'']\<rparr>)
         [''is_numerical'' \<mapsto> PyStr ''banana''])
     = Inl ValidationError
   \<and> fst (view_update sample_run_validation sample_db
         (request 1 [] \<lparr>kwargs := [''id'' \<mapsto> ''a1'']\<rparr>)
         [''is_numerical'' \<mapsto> PyStr ''banana''])
     \<noteq> Inl EnterpriseFeatureException"
  by (simp add: view_update_def get_object_def objects_get_def sample_db_def request_def
      row_def sample_run_validation_def)

section \<open>Retrieving one definition\<close>

text \<open>
  C4 fails on the code: \<^verbatim>\<open>get_object\<close> looks the identifier up in the whole table. A
  member of team 1 who asks for \<^verbatim>\<open>b1\<close>, a definition of team 2, is given it.
\<close>

theorem get_object_other_team:
  "self_team_id (request 1 [] \<lparr>kwargs := [''id'' \<mapsto> ''b1'']\<rparr>) = 1
   \<and> get_object sample_db (request 1 [] \<lparr>kwargs := [''id'' \<mapsto> ''b1'']\<rparr>)
       = Inr (row ''b1'' ''secret'' True (Some 3) 2)
   \<and> team_id (row ''b1'' ''secret'' True (Some 3) 2) = 2"
  by (simp add: get_object_def objects_get_def sample_db_def request_def row_def)

section \<open>The text of the statement\<close>



lemma fst_get_name_filter:
  "fst (get_name_filter self) =
     (if str_truthy (GET self ''properties'') then ''AND name IN %(names)s'' else '''')"
  by (cases "GET self ''properties''") (simp_all add: get_name_filter_def Let_def)

lemma get_json_param_Inr:
  assumes "get_json_param env self key = Inr v"
  shows "GET self key = None \<and> v = PyNone
    \<or> GET self key = Some [] \<and> v = PyStr []
    \<or> (\<exists>s. GET self key = Some s \<and> s \<noteq> [] \<and> json_loads env s = Some v)"
  using assms by (auto simp: get_json_param_def split: option.splits if_splits)






section \<open>Names that are never listed\<close>

lemma excluded_condition_bound:
  assumes "''excluded_properties'' \<notin> dom (snd (get_search_fields env self))"
    and "excluded_condition (bound_params env self names S) = Inr c"
  shows "c = (\<lambda>r. sql_not (sql_in (name r)
    (S \<union> PyStr ` HIDDEN_PROPERTY_DEFINITIONS (GROUP_TYPES_LIMIT env))))"
  using assms(2)
  unfolding excluded_condition_def in_list_def bound_params_own [OF assms(1)] raising_Inr_iff
  by (auto split: if_splits)

lemma sql_not_in_True: "sql_not (sql_in x S) = Some True \<Longrightarrow> PyStr x \<notin> S"
  by (auto simp: sql_not_def sql_in_def split: if_splits)

text \<open>
  The exclusion in terms of what \<^verbatim>\<open>_get_excluded_properties\<close> returns.
\<close>

lemma hidden_and_excluded_never_listed_read:
  assumes "list_view env db self = Inr rows"
    and "''excluded_properties'' \<notin> dom (snd (get_search_fields env self))"
    and "r \<in> set rows"
  shows "\<exists>excluded S.
    get_excluded_properties env self = Inr excluded
    \<and> py_set (py_or excluded (PyList [])) = Inr S
    \<and> PyStr (name r) \<notin> S
    \<and> name r \<notin> HIDDEN_PROPERTY_DEFINITIONS (GROUP_TYPES_LIMIT env)"
proof -
  from assms(1) obtain q where q: "get_queryset env self = Inr q"
    and ex: "execute env db q = Inr rows"
    by (rule list_view_Inr)
  from q obtain excluded names S where
    excluded: "get_excluded_properties env self = Inr excluded"
    and S: "py_set (py_or excluded (PyList [])) = Inr S"
    and ps: "params q = bound_params env self names S"
    by (rule get_queryset_Inr)
  from ex obtain field c1 c2 c3 c4 c5 c6 where
    c2: "excluded_condition (params q) = Inr c2"
    and rows: "rows = sort_key order_by_key (map (annotate field)
       (filter (\<lambda>r. list_all (\<lambda>c. c r = Some True) [c1, c2, c3, c4, c5, c6])
         (posthog_propertydefinition db)))"
    by (rule execute_Inr)
  from rows assms(3) obtain r0 where r0: "r = annotate field r0"
    and holds: "\<forall>c \<in> set [c1, c2, c3, c4, c5, c6]. c r0 = Some True"
    by (rule sorted_rows_D)
  from c2 have "c2 = (\<lambda>r. sql_not (sql_in (name r)
      (S \<union> PyStr ` HIDDEN_PROPERTY_DEFINITIONS (GROUP_TYPES_LIMIT env))))"
    unfolding ps by (rule excluded_condition_bound [OF assms(2)])
  with holds have "sql_not (sql_in (name r0)
      (S \<union> PyStr ` HIDDEN_PROPERTY_DEFINITIONS (GROUP_TYPES_LIMIT env))) = Some True"
    by simp
  then have "PyStr (name r0) \<notin> S \<union> PyStr ` HIDDEN_PROPERTY_DEFINITIONS (GROUP_TYPES_LIMIT env)"
    by (rule sql_not_in_True)
  then have "PyStr (name r) \<notin> S"
    and "name r \<notin> HIDDEN_PROPERTY_DEFINITIONS (GROUP_TYPES_LIMIT env)"
    by (auto simp: r0)
  with excluded S show ?thesis
    by blast
qed

lemma falsy_py_tuple:
  assumes "\<not> truthy v" and "py_tuple v = Inr xs"
  shows "xs = []"
  using assms by (cases v) auto

lemma py_set_elements:
  assumes "py_set v = Inr S" and "py_tuple v = Inr xs"
  shows "S = set xs"
  using assms by (auto simp: py_set_def split: if_splits)

text \<open>
  Of the requests that are answered: no returned row bears a name of the hidden set, nor
  a name among the elements that \<^verbatim>\<open>json.loads\<close> decodes from \<^verbatim>\<open>excluded_properties\<close>. The
  term search is taken to bind no parameter called \<^verbatim>\<open>excluded_properties\<close> of its own.
\<close>

theorem hidden_and_excluded_never_listed:
  assumes "list_view env db self = Inr rows"
    and "''excluded_properties'' \<notin> dom (snd (get_search_fields env self))"
    and "r \<in> set rows"
  shows "name r \<notin> HIDDEN_PROPERTY_DEFINITIONS (GROUP_TYPES_LIMIT env)
    \<and> (\<forall>s v xs. GET self ''excluded_properties'' = Some s \<and> s \<noteq> []
          \<and> json_loads env s = Some v \<and> py_tuple v = Inr xs \<longrightarrow> PyStr (name r) \<notin> set xs)"
proof -
  from hidden_and_excluded_never_listed_read [OF assms] obtain excluded S where
    excluded: "get_excluded_properties env self = Inr excluded"
    and S: "py_set (py_or excluded (PyList [])) = Inr S"
    and r: "PyStr (name r) \<notin> S"
    and hidden: "name r \<notin> HIDDEN_PROPERTY_DEFINITIONS (GROUP_TYPES_LIMIT env)"
    by blast
  have "PyStr (name r) \<notin> set xs"
    if "GET self ''excluded_properties'' = Some s" "s \<noteq> []" "json_loads env s = Some v"
      "py_tuple v = Inr xs" for s v xs
  proof (cases "truthy v")
    case True
    from get_json_param_Inr [OF excluded [unfolded get_excluded_properties_def]] that(1-3)
    have "excluded = v"
      by auto
    with S True have "py_set v = Inr S"
      by (simp add: py_or_def)
    then have "S = set xs"
      using that(4) by (rule py_set_elements)
    with r show ?thesis
      by simp
  next
    case False
    then have "xs = []"
      using that(4) by (rule falsy_py_tuple)
    then show ?thesis
      by simp
  qed
  with hidden show ?thesis
    by blast
qed

theorem hidden_and_excluded_never_listed_witness:
  \<open>map name (projr (list_view sample_env sample_db (request 1 [])))
     = [''plan'', ''timestamp'', ''$browser'', ''price'']
   \<and> map name (projr (list_view sample_env sample_db
       (request 1 [(''excluded_properties'', ''["plan", "price"]'')])))
     = [''timestamp'', ''$browser'']
   \<and> json_loads sample_env ''["plan", "price"]'' = Some (PyList [PyStr ''plan'', PyStr ''price''])
   \<and> ''distinct_id'' \<in> HIDDEN_PROPERTY_DEFINITIONS (GROUP_TYPES_LIMIT sample_env)
   \<and> ''$group_0'' \<in> HIDDEN_PROPERTY_DEFINITIONS (GROUP_TYPES_LIMIT sample_env)\<close>
proof -
  let ?self = \<open>request 1 [(''excluded_properties'', ''["plan", "price"]'')]\<close>
  let ?rows = "projr (list_view sample_env sample_db ?self)"
  have "\<not> isl (list_view sample_env sample_db ?self)"
    by code_simp
  then have ok: "list_view sample_env sample_db ?self = Inr ?rows"
    by simp
  have own: "''excluded_properties'' \<notin> dom (snd (get_search_fields sample_env ?self))"
    by (simp add: get_search_fields_def sample_env_def sample_term_search_def request_def)
  have mem: "hd ?rows \<in> set ?rows"
    by code_simp
  from hidden_and_excluded_never_listed [OF ok own mem]
  have "name (hd ?rows) \<notin> HIDDEN_PROPERTY_DEFINITIONS (GROUP_TYPES_LIMIT sample_env)"
    by blast
  then show ?thesis
    by code_simp
qed

section \<open>The numerical filter\<close>

lemma numerical_condition_true:
  assumes "numerical_condition
      ''AND is_numerical = true AND name NOT IN ('distinct_id', 'timestamp')'' = Inr c"
  shows "c = (\<lambda>r. Some (is_numerical r \<and> name r \<notin> {''distinct_id'', ''timestamp''}))"
  using assms by (simp add: numerical_condition_def)

text \<open>
  A request parameter that a method does not read, or reads only to compare it with a
  text it is not equal to before or after, can be changed without changing the query.
\<close>

lemma get_event_property_field_cong:
  assumes "GET self' ''event_names'' = GET self ''event_names''"
    and "GET self' ''is_event_property'' = GET self ''is_event_property''"
  shows "get_event_property_field env self' = get_event_property_field env self"
  by (simp add: get_event_property_field_def get_event_names_def get_json_param_def assms)

lemma get_queryset_cong:
  assumes "self_team_id self' = self_team_id self"
    and "GET self' ''properties'' = GET self ''properties''"
    and "(GET self' ''is_numerical'' = Some ''true'') = (GET self ''is_numerical'' = Some ''true'')"
    and "GET self' ''event_names'' = GET self ''event_names''"
    and "GET self' ''excluded_properties'' = GET self ''excluded_properties''"
    and "get_event_property_field env self' = get_event_property_field env self"
    and "GET self' ''search'' = GET self ''search''"
  shows "get_queryset env self' = get_queryset env self"
proof -
  have "get_name_filter self' = get_name_filter self"
    by (simp add: get_name_filter_def assms(2))
  moreover have "get_numerical_filter self' = get_numerical_filter self"
    by (simp add: get_numerical_filter_def assms(3))
  moreover have "get_event_names env self' = get_event_names env self"
    by (simp add: get_event_names_def get_json_param_def assms(4))
  moreover have "get_excluded_properties env self' = get_excluded_properties env self"
    by (simp add: get_excluded_properties_def get_json_param_def assms(5))
  moreover have "get_search_fields env self' = get_search_fields env self"
    by (simp add: get_search_fields_def assms(7))
  ultimately show ?thesis
    by (simp add: get_queryset_def assms(1) assms(6))
qed

text \<open>
  Of the requests that are answered: with \<^verbatim>\<open>is_numerical\<close> equal to \<^verbatim>\<open>"true"\<close> every
  returned row is numerical and none is named \<^verbatim>\<open>distinct_id\<close> or \<^verbatim>\<open>timestamp\<close>; with any
  other value, or none, the statement has no numerical condition (the fragment is empty,
  which holds of every row), and the answer is the answer to the request without the
  parameter.
\<close>

theorem numerical_filter_effect:
  assumes "list_view env db self = Inr rows"
  shows "(GET self ''is_numerical'' = Some ''true'' \<longrightarrow>
      (\<forall>r \<in> set rows. is_numerical r \<and> name r \<noteq> ''distinct_id'' \<and> name r \<noteq> ''timestamp''))
    \<and> (GET self ''is_numerical'' \<noteq> Some ''true'' \<longrightarrow>
      (\<exists>q. get_queryset env self = Inr q \<and> numerical_filter q = []
         \<and> numerical_condition (numerical_filter q) = Inr (\<lambda>r. Some True))
      \<and> list_view env db (self\<lparr>GET := (GET self)(''is_numerical'' := None)\<rparr>) = Inr rows)"
proof (rule conjI; rule impI; (rule ballI)?)
  fix r :: RawRow
  assume true: "GET self ''is_numerical'' = Some ''true''" and r: "r \<in> set rows"
  from assms obtain q where q: "get_queryset env self = Inr q"
    and ex: "execute env db q = Inr rows"
    by (rule list_view_Inr)
  from q have "numerical_filter q = get_numerical_filter self"
    by (rule get_queryset_Inr)
  with true have nq: "numerical_filter q
      = ''AND is_numerical = true AND name NOT IN ('distinct_id', 'timestamp')''"
    by (simp add: get_numerical_filter_def)
  from ex obtain field c1 c2 c3 c4 c5 c6 where
    c4: "numerical_condition (numerical_filter q) = Inr c4"
    and rows: "rows = sort_key order_by_key (map (annotate field)
       (filter (\<lambda>r. list_all (\<lambda>c. c r = Some True) [c1, c2, c3, c4, c5, c6])
         (posthog_propertydefinition db)))"
    by (rule execute_Inr)
  from rows r obtain r0 where r0: "r = annotate field r0"
    and holds: "\<forall>c \<in> set [c1, c2, c3, c4, c5, c6]. c r0 = Some True"
    by (rule sorted_rows_D)
  from c4 have "c4 = (\<lambda>r. Some (is_numerical r \<and> name r \<notin> {''distinct_id'', ''timestamp''}))"
    unfolding nq by (rule numerical_condition_true)
  with holds have "is_numerical r0 \<and> name r0 \<notin> {''distinct_id'', ''timestamp''}"
    by simp
  then show "is_numerical r \<and> name r \<noteq> ''distinct_id'' \<and> name r \<noteq> ''timestamp''"
    by (simp add: r0)
next
  assume other: "GET self ''is_numerical'' \<noteq> Some ''true''"
  from assms obtain q where q: "get_queryset env self = Inr q"
    by (rule list_view_Inr)
  then have "numerical_filter q = get_numerical_filter self"
    by (rule get_queryset_Inr)
  with other have empty: "numerical_filter q = []"
    by (simp add: get_numerical_filter_def)
  then have "numerical_condition (numerical_filter q) = Inr (\<lambda>r. Some True)"
    by (simp add: numerical_condition_def)
  with q empty have 1: "\<exists>q. get_queryset env self = Inr q \<and> numerical_filter q = []
      \<and> numerical_condition (numerical_filter q) = Inr (\<lambda>r. Some True)"
    by blast
  have "get_queryset env (self\<lparr>GET := (GET self)(''is_numerical'' := None)\<rparr>)
      = get_queryset env self"
    using other by (intro get_queryset_cong get_event_property_field_cong) simp_all
  with assms have "list_view env db (self\<lparr>GET := (GET self)(''is_numerical'' := None)\<rparr>)
      = Inr rows"
    by (simp add: list_view_def)
  with 1 show "(\<exists>q. get_queryset env self = Inr q \<and> numerical_filter q = []
         \<and> numerical_condition (numerical_filter q) = Inr (\<lambda>r. Some True))
      \<and> list_view env db (self\<lparr>GET := (GET self)(''is_numerical'' := None)\<rparr>) = Inr rows"
    by blast
qed

theorem numerical_filter_effect_witness:
  "map (\<lambda>r. (name r, is_numerical r))
       (projr (list_view sample_env sample_db (request 1 [(''is_numerical'', ''true'')])))
     = [(''price'', True)]
   \<and> map name (projr (list_view sample_env sample_db (request 1 [(''is_numerical'', ''1'')])))
     = [''plan'', ''timestamp'', ''$browser'', ''price'']
   \<and> list_view sample_env sample_db (request 1 [(''is_numerical'', ''1'')])
     = list_view sample_env sample_db (request 1 [])"
proof -
  let ?numerical = "request 1 [(''is_numerical'', ''true'')]"
  let ?other = "request 1 [(''is_numerical'', ''1'')]"
  have "\<not> isl (list_view sample_env sample_db ?numerical)"
    by code_simp
  then have "list_view sample_env sample_db ?numerical
      = Inr (projr (list_view sample_env sample_db ?numerical))"
    by simp
  from numerical_filter_effect [OF this]
  have 1: "\<forall>r \<in> set (projr (list_view sample_env sample_db ?numerical)).
      is_numerical r \<and> name r \<noteq> ''distinct_id'' \<and> name r \<noteq> ''timestamp''"
    by (simp add: request_def)
  have "\<not> isl (list_view sample_env sample_db ?other)"
    by code_simp
  then have "list_view sample_env sample_db ?other
      = Inr (projr (list_view sample_env sample_db ?other))"
    by simp
  from numerical_filter_effect [OF this]
  have 2: "list_view sample_env sample_db (?other\<lparr>GET := (GET ?other)(''is_numerical'' := None)\<rparr>)
      = Inr (projr (list_view sample_env sample_db ?other))"
    by (simp add: request_def)
  from 1 2 show ?thesis
    by code_simp
qed

section \<open>The computed column\<close>










section \<open>The order of the rows\<close>





section \<open>Requests that name properties\<close>

text \<open>
  The conjunct on \<^verbatim>\<open>properties\<close> never gets to include anything: \<^verbatim>\<open>get_queryset\<close> binds
  \<^verbatim>\<open>names\<close> to the dict that \<^verbatim>\<open>_get_name_filter\<close> returns, not to the tuple inside it, and a
  statement that refers to \<^verbatim>\<open>%(names)s\<close> is rejected.
\<close>

lemma properties_request_rejected:
  assumes "str_truthy (GET self ''properties'')"
    and "''names'' \<notin> dom (snd (get_search_fields env self))"
  shows "isl (list_view env db self)"
proof (cases "get_queryset env self")
  case (Inl e)
  then show ?thesis
    by (simp add: list_view_def)
next
  case (Inr q)
  then obtain events S where nf: "name_filter q = fst (get_name_filter self)"
    and ps: "params q = bound_params env self events S"
    by (rule get_queryset_Inr)
  from nf assms(1) have "name_filter q = ''AND name IN %(names)s''"
    by (simp add: fst_get_name_filter)
  then have "name_condition (name_filter q) (params q) = Inl DatabaseError"
    unfolding ps name_condition_def in_list_def bound_params_own [OF assms(2)]
    by simp
  then have "isl (where_conditions env db q)"
    by (simp add: where_conditions_def raising_def split: sum.splits)
  then have "isl (execute env db q)"
    by (auto simp: execute_def raising_def split: sum.splits)
  with Inr show ?thesis
    by (simp add: list_view_def)
qed



end
